theory Spec2Isabelle
  imports Main
begin

section \<open>A caching Go module proxy: shallow embedding\<close>

text \<open>
  The development follows the Go files of the proxy: the cache helpers
  (\<^verbatim>\<open>cache.go\<close>), the start-up code (\<^verbatim>\<open>main.go\<close>) and the file that holds the
  DNS resolvers, \<^verbatim>\<open>NewProxy\<close> and the request handlers.  Go strings and byte
  slices are \<^typ>\<open>string\<close> (lists of 8-bit characters); a Go \<^verbatim>\<open>time.Duration\<close> and a
  point in time are \<^typ>\<open>int\<close> nanoseconds; a Go \<^verbatim>\<open>(value, error)\<close> result is a
  sum or a pair with an optional error.  Everything the code asks of the
  operating system, the network or a library (files, the upstream server, the
  JSON decoder) is an explicit argument of the function that uses it.
\<close>

subsection \<open>The functions of package \<^verbatim>\<open>strings\<close> that the code calls\<close>

definition HasPrefix :: "string \<Rightarrow> string \<Rightarrow> bool" where
  "HasPrefix s pre = (take (length pre) s = pre)"

definition TrimPrefix :: "string \<Rightarrow> string \<Rightarrow> string" where
  "TrimPrefix s pre = (if HasPrefix s pre then drop (length pre) s else s)"

definition HasSuffix :: "string \<Rightarrow> string \<Rightarrow> bool" where
  "HasSuffix s suf = (length suf \<le> length s \<and> drop (length s - length suf) s = suf)"

definition TrimSuffix :: "string \<Rightarrow> string \<Rightarrow> string" where
  "TrimSuffix s suf = (if HasSuffix s suf then take (length s - length suf) s else s)"

fun Contains :: "string \<Rightarrow> string \<Rightarrow> bool" where
  "Contains [] sub = (sub = [])"
| "Contains (c # cs) sub = (HasPrefix (c # cs) sub \<or> Contains cs sub)"

text \<open>\<^verbatim>\<open>strings.Split(s, sep)\<close> for a separator of one byte: never the empty list.\<close>

fun Split :: "string \<Rightarrow> char \<Rightarrow> string list" where
  "Split [] sep = [[]]"
| "Split (c # cs) sep =
     (if c = sep then [] # Split cs sep
      else (case Split cs sep of [] \<Rightarrow> [[c]] | seg # segs \<Rightarrow> (c # seg) # segs))"

text \<open>\<^verbatim>\<open>strings.ReplaceAll(s, old, new)\<close> for an \<^verbatim>\<open>old\<close> of one byte.\<close>

definition ReplaceAll :: "string \<Rightarrow> char \<Rightarrow> string \<Rightarrow> string" where
  "ReplaceAll s old new = concat (map (\<lambda>c. if c = old then new else [c]) s)"

text \<open>\<^verbatim>\<open>strings.Join(elems, sep)\<close>.\<close>

fun Join :: "string list \<Rightarrow> string \<Rightarrow> string" where
  "Join [] sep = []"
| "Join [e] sep = e"
| "Join (e # e' # es) sep = e @ sep @ Join (e' # es) sep"

subsection \<open>Durations and contexts\<close>

definition Second :: int where
  "Second = 1000000000"

definition Minute :: int where
  "Minute = 60 * Second"

text \<open>
  A \<^verbatim>\<open>context.Context\<close> is described by what a caller can observe of it: the
  deadline it reports (\<^verbatim>\<open>ctx.Deadline()\<close>) and the instant at which it is
  cancelled from outside, if ever (for an inbound request: the client hangs up).
\<close>

record Context =
  deadline :: "int option"
  cancelAt :: "int option"

definition min_opt :: "int option \<Rightarrow> int option \<Rightarrow> int option" where
  "min_opt a b =
     (case a of None \<Rightarrow> b
      | Some x \<Rightarrow> (case b of None \<Rightarrow> Some x | Some y \<Rightarrow> Some (min x y)))"

text \<open>The instant at which the context's \<^verbatim>\<open>Done\<close> channel closes.\<close>

definition doneAt :: "Context \<Rightarrow> int option" where
  "doneAt ctx = min_opt (deadline ctx) (cancelAt ctx)"

text \<open>
  \<^verbatim>\<open>context.WithTimeout(parent, d)\<close> called at time \<open>now\<close>: the child keeps the
  parent's deadline when that is earlier, and is cancelled whenever the parent is.
\<close>

definition WithTimeout :: "Context \<Rightarrow> int \<Rightarrow> int \<Rightarrow> Context" where
  "WithTimeout parent now d =
     \<lparr>deadline = min_opt (deadline parent) (Some (now + d)), cancelAt = cancelAt parent\<rparr>"

subsection \<open>DNS resolvers\<close>

record http_Client =
  Timeout :: int

record dns_Client =
  Net :: string

datatype DNSResolver =
    StandardDNSResolver string
  | DoHResolver http_Client string
  | DoTResolver string dns_Client
  | DoQResolver string dns_Client

text \<open>
  \<^verbatim>\<open>createDNSResolver\<close> returns a resolver and an error; \<open>None\<close> stands for Go's
  \<^verbatim>\<open>nil\<close> in both places.
\<close>

definition createDNSResolver :: "string \<Rightarrow> DNSResolver option \<times> string option" where
  "createDNSResolver dnsURL =
     (if dnsURL = [] then (None, None)
      else if HasPrefix dnsURL ''https://'' then
        (Some (DoHResolver \<lparr>Timeout = 10 * Second\<rparr> dnsURL), None)
      else if HasPrefix dnsURL ''quic://'' then
        (let server = TrimPrefix dnsURL ''quic://'';
             server = (if \<not> Contains server '':'' then server @ '':853'' else server)
         in (Some (DoQResolver server \<lparr>Net = ''tcp-tls''\<rparr>), None))
      else if HasPrefix dnsURL ''tls://'' then
        (let server = TrimPrefix dnsURL ''tls://'';
             server = (if \<not> Contains server '':'' then server @ '':853'' else server)
         in (Some (DoTResolver server \<lparr>Net = ''tcp-tls''\<rparr>), None))
      else
        (let server = TrimPrefix dnsURL ''udp://'';
             server = (if \<not> Contains server '':'' then server @ '':53'' else server)
         in (Some (StandardDNSResolver server), None)))"

subsection \<open>Looking a host up\<close>

datatype dns_RR = A_record string | Other_record

record dns_Msg =
  Question :: "(string \<times> string) list"
  Answer :: "dns_RR list"

datatype lookup_error = NetError string | BadStatus nat | NoARecords string

text \<open>
  The network and the libraries that speak to it, as the resolvers use them:
  the TLS dial (address, server name), writing and reading one DNS message on
  a connection under an optional deadline, \<^verbatim>\<open>dns.Fqdn\<close>, the system resolver
  pointed at a UDP server, and the HTTP exchange of the DNS-over-HTTPS
  resolver (URL and context to status and decoded answers).
\<close>

record network =
  tls_Dial :: "string \<Rightarrow> string \<Rightarrow> string + nat"
  WriteMsg :: "nat \<Rightarrow> int option \<Rightarrow> dns_Msg \<Rightarrow> string option"
  ReadMsg :: "nat \<Rightarrow> int option \<Rightarrow> string + dns_Msg"
  Fqdn :: "string \<Rightarrow> string"
  LookupIPAddr :: "string \<Rightarrow> Context \<Rightarrow> string \<Rightarrow> string + string list"
  QueryEscape :: "string \<Rightarrow> string"
  doh_Get :: "string \<Rightarrow> Context \<Rightarrow> string + nat \<times> (string + (int \<times> string) list)"
  ParseIP :: "string \<Rightarrow> string option"

definition DoT_LookupIP ::
  "network \<Rightarrow> string \<Rightarrow> dns_Client \<Rightarrow> Context \<Rightarrow> string \<Rightarrow> lookup_error + string list" where
  "DoT_LookupIP net server client ctx host =
     (let m = \<lparr>Question = [(Fqdn net host, ''A'')], Answer = []\<rparr> in
      case tls_Dial net server (hd (Split server CHR '':'')) of
        Inl err \<Rightarrow> Inl (NetError err)
      | Inr conn \<Rightarrow>
          (case WriteMsg net conn (deadline ctx) m of
             Some err \<Rightarrow> Inl (NetError err)
           | None \<Rightarrow>
               (case ReadMsg net conn (deadline ctx) of
                  Inl err \<Rightarrow> Inl (NetError err)
                | Inr reply \<Rightarrow>
                    (let ips = concat (map (\<lambda>rr. case rr of A_record a \<Rightarrow> [a] | Other_record \<Rightarrow> [])
                                         (Answer reply))
                     in if length ips = 0 then Inl (NoARecords host) else Inr ips))))"

text \<open>The DNS-over-QUIC resolver builds a DNS-over-TLS resolver from its own fields.\<close>

definition DoQ_LookupIP ::
  "network \<Rightarrow> string \<Rightarrow> dns_Client \<Rightarrow> Context \<Rightarrow> string \<Rightarrow> lookup_error + string list" where
  "DoQ_LookupIP net server client ctx host =
     (let dot_server = server; dot_client = client
      in DoT_LookupIP net dot_server dot_client ctx host)"

definition DoH_LookupIP ::
  "network \<Rightarrow> http_Client \<Rightarrow> string \<Rightarrow> Context \<Rightarrow> string \<Rightarrow> lookup_error + string list" where
  "DoH_LookupIP net client endpoint ctx host =
     (let dohURL = endpoint @ ''?name='' @ QueryEscape net host @ ''&type=A'' in
      case doh_Get net dohURL ctx of
        Inl err \<Rightarrow> Inl (NetError err)
      | Inr (code, decoded) \<Rightarrow>
          if code \<noteq> 200 then Inl (BadStatus code)
          else (case decoded of
                  Inl err \<Rightarrow> Inl (NetError err)
                | Inr answers \<Rightarrow>
                    (let ips = concat (map (\<lambda>(ty, data).
                                   if ty = 1 then (case ParseIP net data of Some ip \<Rightarrow> [ip] | None \<Rightarrow> [])
                                   else []) answers)
                     in if length ips = 0 then Inl (NoARecords host) else Inr ips)))"

definition Standard_LookupIP ::
  "network \<Rightarrow> string \<Rightarrow> Context \<Rightarrow> string \<Rightarrow> lookup_error + string list" where
  "Standard_LookupIP net server ctx host =
     (case LookupIPAddr net server ctx host of
        Inl err \<Rightarrow> Inl (NetError err)
      | Inr addrs \<Rightarrow> Inr addrs)"

text \<open>The method \<^verbatim>\<open>LookupIP\<close> of the interface, by the resolver's dynamic type.\<close>

fun LookupIP :: "network \<Rightarrow> DNSResolver \<Rightarrow> Context \<Rightarrow> string \<Rightarrow> lookup_error + string list" where
  "LookupIP net (StandardDNSResolver server) ctx host = Standard_LookupIP net server ctx host"
| "LookupIP net (DoHResolver client endpoint) ctx host = DoH_LookupIP net client endpoint ctx host"
| "LookupIP net (DoTResolver server client) ctx host = DoT_LookupIP net server client ctx host"
| "LookupIP net (DoQResolver server client) ctx host = DoQ_LookupIP net server client ctx host"

subsection \<open>Choosing the forward proxy\<close>

text \<open>
  The environment is the function \<^verbatim>\<open>os.Getenv\<close>: an unset variable reads as the
  empty string.  \<open>main_httpProxy\<close> is the value of the flag \<^verbatim>\<open>*httpProxy\<close> after
  lines 36 to 45 of \<^verbatim>\<open>main\<close>; \<open>NewProxy_proxyURL\<close> is the local \<^verbatim>\<open>proxyURL\<close> of
  \<^verbatim>\<open>NewProxy\<close> after its three tests.
\<close>

definition main_httpProxy :: "string \<Rightarrow> (string \<Rightarrow> string) \<Rightarrow> string" where
  "main_httpProxy flag Getenv =
     (if flag = [] then
        (if Getenv ''HTTP_PROXY'' \<noteq> [] then Getenv ''HTTP_PROXY''
         else if Getenv ''HTTPS_PROXY'' \<noteq> [] then Getenv ''HTTPS_PROXY''
         else if Getenv ''SOCKS5_PROXY'' \<noteq> [] then Getenv ''SOCKS5_PROXY''
         else flag)
      else flag)"

definition NewProxy_proxyURL :: "string \<Rightarrow> (string \<Rightarrow> string) \<Rightarrow> string" where
  "NewProxy_proxyURL httpProxy Getenv =
     (let proxyURL = httpProxy;
          proxyURL = (if proxyURL = [] then Getenv ''HTTP_PROXY'' else proxyURL);
          proxyURL = (if proxyURL = [] then Getenv ''HTTPS_PROXY'' else proxyURL);
          proxyURL = (if proxyURL = [] then Getenv ''SOCKS5_PROXY'' else proxyURL)
      in proxyURL)"

text \<open>The first non-empty string of a list, or the empty string.\<close>

fun first_nonempty :: "string list \<Rightarrow> string" where
  "first_nonempty [] = []"
| "first_nonempty (s # ss) = (if s \<noteq> [] then s else first_nonempty ss)"

subsection \<open>Paths: the functions of \<^verbatim>\<open>path/filepath\<close> that the code calls\<close>

text \<open>
  The host is a Unix system (the image is built with \<^verbatim>\<open>GOOS=linux\<close>): the
  separator is the slash and there are no volume names.
\<close>

definition Separator :: char where
  "Separator = CHR ''/''"

text \<open>
  \<^verbatim>\<open>filepath.Clean\<close> reads the path element by element and keeps the elements
  written so far: an empty element and \<^verbatim>\<open>.\<close> are skipped; \<^verbatim>\<open>..\<close> removes the
  last element written when there is one that is not itself \<^verbatim>\<open>..\<close>, is dropped
  at the root of a rooted path, and is written otherwise.
\<close>

fun clean_elems :: "bool \<Rightarrow> string list \<Rightarrow> string list \<Rightarrow> string list" where
  "clean_elems rooted out [] = out"
| "clean_elems rooted out (e # es) =
     (if e = [] \<or> e = ''.'' then clean_elems rooted out es
      else if e = ''..'' then
        (if out \<noteq> [] \<and> last out \<noteq> ''..'' then clean_elems rooted (butlast out) es
         else if \<not> rooted then clean_elems rooted (out @ [''..'']) es
         else clean_elems rooted out es)
      else clean_elems rooted (out @ [e]) es)"

definition Clean :: "string \<Rightarrow> string" where
  "Clean path =
     (if path = [] then ''.''
      else
        (let rooted = (hd path = Separator);
             out = Join (clean_elems rooted [] (Split path Separator)) [Separator]
         in if rooted then Separator # out
            else if out = [] then ''.''
            else out))"

text \<open>
  \<^verbatim>\<open>filepath.Join\<close> of two elements: empty elements are ignored, the rest is
  joined with the separator and cleaned; all empty gives the empty string.
\<close>

definition filepath_Join :: "string \<Rightarrow> string \<Rightarrow> string" where
  "filepath_Join a b =
     (if a \<noteq> [] then Clean (a @ [Separator] @ b)
      else if b \<noteq> [] then Clean b
      else [])"

text \<open>\<^verbatim>\<open>filepath.Dir\<close>: the path up to and with its last separator, cleaned.\<close>

definition filepath_Dir :: "string \<Rightarrow> string" where
  "filepath_Dir path = Clean (rev (dropWhile (\<lambda>c. c \<noteq> Separator) (rev path)))"

subsection \<open>The file system\<close>

text \<open>
  The state of the disk is a map from paths to nodes.  The calls of package
  \<^verbatim>\<open>os\<close> that the code makes are functions on this map.  A call fails for a
  reason that the map shows (no such file, a directory where a file is needed)
  or because the environment makes it fail (no permission, disk full, I/O
  error): the latter is an argument of the call.  A write that the environment
  interrupts leaves the bytes written so far.
\<close>

datatype node = File string | Directory

type_synonym filesystem = "string \<Rightarrow> node option"

datatype os_error = ENOENT | EISDIR | ENOTDIR | EIO

datatype write_fault = WriteOK | OpenFails | WriteFailsAfter nat

record faults =
  read_fails :: bool
  stat_fails :: bool
  copy_read_stops :: "nat option"
  mkdir_fails :: bool
  write_fails :: write_fault
  rename_fails :: bool
  remove_fails :: bool

definition os_ReadFile :: "bool \<Rightarrow> filesystem \<Rightarrow> string \<Rightarrow> os_error + string" where
  "os_ReadFile fails fs name =
     (if fails then Inl EIO
      else (case fs name of
              None \<Rightarrow> Inl ENOENT
            | Some Directory \<Rightarrow> Inl EISDIR
            | Some (File data) \<Rightarrow> Inr data))"

text \<open>\<^verbatim>\<open>os.Open\<close> also opens a directory; the handle is the node that was opened.\<close>

definition os_Open :: "bool \<Rightarrow> filesystem \<Rightarrow> string \<Rightarrow> os_error + node" where
  "os_Open fails fs name =
     (if fails then Inl EIO
      else (case fs name of None \<Rightarrow> Inl ENOENT | Some nd \<Rightarrow> Inr nd))"

definition os_Stat :: "bool \<Rightarrow> filesystem \<Rightarrow> string \<Rightarrow> os_error + node" where
  "os_Stat fails fs name =
     (if fails then Inl EIO
      else (case fs name of None \<Rightarrow> Inl ENOENT | Some nd \<Rightarrow> Inr nd))"

text \<open>
  \<^verbatim>\<open>os.MkdirAll\<close> makes the directory and every ancestor that is missing.
  \<open>dir_chain\<close> lists the directory and its ancestors, the directory first: the
  prefixes of the path that end before a separator (the root, which always
  exists, is left out).  \<open>mkdir_all\<close> is the recursion of the library: a
  directory that exists ends it with success, a file with \<^verbatim>\<open>ENOTDIR\<close>; a
  missing one is made once its parent is there.  A refusal by the environment
  is taken at the start of the call.
\<close>

fun dir_chain_scan :: "string \<Rightarrow> string \<Rightarrow> string list" where
  "dir_chain_scan seen [] = [seen]"
| "dir_chain_scan seen (c # cs) =
     (if c = Separator then seen # dir_chain_scan (seen @ [c]) cs
      else dir_chain_scan (seen @ [c]) cs)"

definition dir_chain :: "string \<Rightarrow> string list" where
  "dir_chain name = rev (filter (\<lambda>a. a \<noteq> []) (dir_chain_scan [] name))"

fun mkdir_all :: "filesystem \<Rightarrow> string list \<Rightarrow> os_error option \<times> filesystem" where
  "mkdir_all fs [] = (None, fs)"
| "mkdir_all fs (a # parents) =
     (case fs a of
        Some Directory \<Rightarrow> (None, fs)
      | Some (File data) \<Rightarrow> (Some ENOTDIR, fs)
      | None \<Rightarrow>
          (case mkdir_all fs parents of
             (Some err, fs') \<Rightarrow> (Some err, fs')
           | (None, fs') \<Rightarrow> (None, fs'(a \<mapsto> Directory))))"

definition os_MkdirAll :: "bool \<Rightarrow> filesystem \<Rightarrow> string \<Rightarrow> os_error option \<times> filesystem" where
  "os_MkdirAll fails fs name =
     (if fails then (Some EIO, fs) else mkdir_all fs (dir_chain name))"

text \<open>
  \<^verbatim>\<open>os.Create\<close> (and the opening half of \<^verbatim>\<open>os.WriteFile\<close>): create or truncate.
\<close>

definition os_Create :: "write_fault \<Rightarrow> filesystem \<Rightarrow> string \<Rightarrow> os_error option \<times> filesystem" where
  "os_Create w fs name =
     (if w = OpenFails then (Some EIO, fs)
      else if fs name = Some Directory then (Some EISDIR, fs)
      else (None, fs(name \<mapsto> File [])))"

definition os_WriteFile ::
  "write_fault \<Rightarrow> filesystem \<Rightarrow> string \<Rightarrow> string \<Rightarrow> os_error option \<times> filesystem" where
  "os_WriteFile w fs name data =
     (case os_Create w fs name of
        (Some err, fs') \<Rightarrow> (Some err, fs')
      | (None, fs') \<Rightarrow>
          (case w of
             WriteFailsAfter n \<Rightarrow> (Some EIO, fs'(name \<mapsto> File (take n data)))
           | _ \<Rightarrow> (None, fs'(name \<mapsto> File data))))"

definition os_Rename ::
  "bool \<Rightarrow> filesystem \<Rightarrow> string \<Rightarrow> string \<Rightarrow> os_error option \<times> filesystem" where
  "os_Rename fails fs oldpath newpath =
     (if fails then (Some EIO, fs)
      else (case fs oldpath of
              None \<Rightarrow> (Some ENOENT, fs)
            | Some Directory \<Rightarrow>
                (case fs newpath of
                   Some (File data) \<Rightarrow> (Some ENOTDIR, fs)
                 | _ \<Rightarrow> (None, (fs(oldpath := None))(newpath \<mapsto> Directory)))
            | Some (File data) \<Rightarrow>
                (case fs newpath of
                   Some Directory \<Rightarrow> (Some EISDIR, fs)
                 | _ \<Rightarrow> (None, (fs(oldpath := None))(newpath \<mapsto> File data)))))"

definition os_Remove :: "bool \<Rightarrow> filesystem \<Rightarrow> string \<Rightarrow> os_error option \<times> filesystem" where
  "os_Remove fails fs name =
     (if fails then (Some EIO, fs)
      else (case fs name of
              None \<Rightarrow> (Some ENOENT, fs)
            | Some nd \<Rightarrow> (None, fs(name := None))))"

subsection \<open>The cache helpers (\<^verbatim>\<open>cache.go\<close>)\<close>

definition cachePath :: "string \<Rightarrow> string \<Rightarrow> string" where
  "cachePath baseDir urlPath =
     (let safePath = ReplaceAll urlPath CHR ''/'' [Separator]
      in filepath_Join baseDir safePath)"


definition readCache :: "'a faults_scheme \<Rightarrow> filesystem \<Rightarrow> string \<Rightarrow> os_error + string" where
  "readCache flt fs path = os_ReadFile (read_fails flt) fs path"

definition writeCache ::
  "'a faults_scheme \<Rightarrow> filesystem \<Rightarrow> string \<Rightarrow> string \<Rightarrow> os_error option \<times> filesystem" where
  "writeCache flt fs path data =
     (case os_MkdirAll (mkdir_fails flt) fs (filepath_Dir path) of
        (Some err, fs1) \<Rightarrow> (Some err, fs1)
      | (None, fs1) \<Rightarrow>
          (let tmpPath = path @ ''.tmp'' in
           case os_WriteFile (write_fails flt) fs1 tmpPath data of
             (Some err, fs2) \<Rightarrow> (Some err, fs2)
           | (None, fs2) \<Rightarrow> os_Rename (rename_fails flt) fs2 tmpPath path))"

definition cacheExists :: "'a faults_scheme \<Rightarrow> filesystem \<Rightarrow> string \<Rightarrow> bool" where
  "cacheExists flt fs path =
     (case os_Stat (stat_fails flt) fs path of Inl err \<Rightarrow> False | Inr nd \<Rightarrow> True)"

text \<open>What a reader finds at a path: the content of a file, if a file is there.\<close>

definition content_at :: "filesystem \<Rightarrow> string \<Rightarrow> string option" where
  "content_at fs path = (case fs path of Some (File data) \<Rightarrow> Some data | _ \<Rightarrow> None)"

subsection \<open>The proxy and its world\<close>

record Proxy =
  cacheDir :: string
  upstream :: string
  client :: http_Client

text \<open>
  \<^verbatim>\<open>NewProxy\<close>, as far as the \<^verbatim>\<open>Proxy\<close> value goes: the transport (dialer,
  resolver, forward proxy, connection pool) is inside the HTTP client and is
  not part of the record; the choice of the proxy URL is \<open>NewProxy_proxyURL\<close>.
\<close>

definition NewProxy :: "string \<Rightarrow> string \<Rightarrow> string \<Rightarrow> string \<Rightarrow> Proxy" where
  "NewProxy cacheDir' upstream' httpProxy dnsServer =
     \<lparr>cacheDir = cacheDir', upstream = TrimSuffix upstream' ''/'',
      client = \<lparr>Timeout = 5 * Minute\<rparr>\<rparr>"

text \<open>
  The outcome of the exchange with the upstream server for one URL:
  \<^verbatim>\<open>http.NewRequestWithContext\<close> fails; \<^verbatim>\<open>client.Do\<close> fails; or there is a
  response with a status code, a declared content length, the bytes of the
  body that can be read, and whether the body ends properly (\<open>True\<close>) or with
  an error (\<open>False\<close>); for a streamed archive the error may also come from the
  inbound client that no longer takes the bytes.
\<close>

datatype exchange = NewRequestError | DoError | Response nat int string bool

text \<open>
  The world of one request: the faults of the disk, the upstream server, the
  clock when the handler runs, the verdict of \<^verbatim>\<open>json.Unmarshal\<close> into a map on a
  body (\<open>True\<close>: no error), and the size that \<^verbatim>\<open>Stat\<close> reports for a directory.
\<close>

record environment = faults +
  origin :: "string \<Rightarrow> exchange"
  now :: int
  json_ok :: "string \<Rightarrow> bool"
  dir_size :: nat

record Request =
  Method :: string
  URL_Path :: string
  RemoteAddr :: string
  req_Context :: Context

text \<open>
  What the handler leaves behind: the response (status, the two headers the
  handlers set, body; the text of an error is its fixed part), the disk, the
  log lines, and the requests handed to \<^verbatim>\<open>client.Do\<close>, each with its context.
\<close>

record response =
  status :: nat
  content_type :: string
  content_length :: "int option"
  body :: string

datatype log_entry =
    Log_request string
  | Log_CACHE_HIT string
  | Log_CACHE_MISS string
  | Log_ERROR string
  | Log_WARN string
  | Log_INFO string
  | Log_SUCCESS string

record outbound =
  url :: string
  out_ctx :: Context

record outcome =
  resp :: response
  disk :: filesystem
  logs :: "log_entry list"
  sent :: "outbound list"

definition http_Error :: "string \<Rightarrow> nat \<Rightarrow> response" where
  "http_Error msg code =
     \<lparr>status = code, content_type = ''text/plain; charset=utf-8'', content_length = None,
      body = msg @ [CHR 0x0A]\<rparr>"

text \<open>A response that the handler writes without setting a status: 200.\<close>

definition ok_response :: "string \<Rightarrow> int option \<Rightarrow> string \<Rightarrow> response" where
  "ok_response ctype clen data =
     \<lparr>status = 200, content_type = ctype, content_length = clen, body = data\<rparr>"

subsection \<open>The handlers\<close>

text \<open>
  \<^verbatim>\<open>handleList\<close>, \<^verbatim>\<open>handleInfo\<close> and \<^verbatim>\<open>handleMod\<close> are the same text but for the
  content type and for the JSON check of \<^verbatim>\<open>handleInfo\<close>; \<open>handleBuffered\<close> is
  that text, with the two as arguments.
\<close>

definition handleBuffered ::
  "string \<Rightarrow> bool \<Rightarrow> Proxy \<Rightarrow> environment \<Rightarrow> filesystem \<Rightarrow> Request \<Rightarrow> string \<Rightarrow> outcome" where
  "handleBuffered ctype validate p env fs r path =
     (let cp = cachePath (cacheDir p) path in
      case readCache env fs cp of
        Inr cached \<Rightarrow>
          \<lparr>resp = ok_response ctype None cached, disk = fs,
           logs = [Log_CACHE_HIT path], sent = []\<rparr>
      | Inl err \<Rightarrow>
          (let u = upstream p @ ''/'' @ path;
               req = \<lparr>url = u, out_ctx = req_Context r\<rparr>
           in case origin env u of
                NewRequestError \<Rightarrow>
                  \<lparr>resp = http_Error ''Failed to create request'' 500, disk = fs,
                   logs = [Log_CACHE_MISS path], sent = []\<rparr>
              | DoError \<Rightarrow>
                  \<lparr>resp = http_Error ''Failed to fetch'' 502, disk = fs,
                   logs = [Log_CACHE_MISS path, Log_ERROR ''Failed to fetch''], sent = [req]\<rparr>
              | Response code clen data complete \<Rightarrow>
                  if code \<noteq> 200 then
                    \<lparr>resp = http_Error ''Upstream error'' code, disk = fs,
                     logs = [Log_CACHE_MISS path, Log_ERROR ''Upstream returned''], sent = [req]\<rparr>
                  else if \<not> complete then
                    \<lparr>resp = http_Error ''Failed to read response'' 500, disk = fs,
                     logs = [Log_CACHE_MISS path, Log_ERROR ''Failed to read response''],
                     sent = [req]\<rparr>
                  else if validate \<and> \<not> json_ok env data then
                    \<lparr>resp = http_Error ''Invalid JSON'' 502, disk = fs,
                     logs = [Log_CACHE_MISS path, Log_ERROR ''Invalid JSON from upstream''],
                     sent = [req]\<rparr>
                  else
                    (case writeCache env fs cp data of
                       (Some werr, fs') \<Rightarrow>
                         \<lparr>resp = ok_response ctype None data, disk = fs',
                          logs = [Log_CACHE_MISS path, Log_WARN ''Failed to cache''],
                          sent = [req]\<rparr>
                     | (None, fs') \<Rightarrow>
                         \<lparr>resp = ok_response ctype None data, disk = fs',
                          logs = [Log_CACHE_MISS path], sent = [req]\<rparr>)))"

definition handleList :: "Proxy \<Rightarrow> environment \<Rightarrow> filesystem \<Rightarrow> Request \<Rightarrow> string \<Rightarrow> outcome" where
  "handleList = handleBuffered ''text/plain; charset=utf-8'' False"

definition handleInfo :: "Proxy \<Rightarrow> environment \<Rightarrow> filesystem \<Rightarrow> Request \<Rightarrow> string \<Rightarrow> outcome" where
  "handleInfo = handleBuffered ''application/json'' True"

definition handleMod :: "Proxy \<Rightarrow> environment \<Rightarrow> filesystem \<Rightarrow> Request \<Rightarrow> string \<Rightarrow> outcome" where
  "handleMod = handleBuffered ''text/plain; charset=utf-8'' False"

text \<open>
  The miss path of \<^verbatim>\<open>handleZip\<close>, from the log line \<^verbatim>\<open>[CACHE MISS]\<close> on.  The
  copy hands the bytes to the inbound client and to the temporary file; the
  bytes that reach both are those of the exchange, cut where the disk stops
  the write.  The buffer of 64 KB is not modelled (what one sink may have got
  beyond the other within a buffer).
\<close>

definition handleZip_miss ::
  "Proxy \<Rightarrow> environment \<Rightarrow> filesystem \<Rightarrow> Request \<Rightarrow> string \<Rightarrow> outcome" where
  "handleZip_miss p env fs r path =
     (let cp = cachePath (cacheDir p) path;
          ctx' = WithTimeout (req_Context r) (now env) (10 * Minute);
          u = upstream p @ ''/'' @ path;
          req = \<lparr>url = u, out_ctx = ctx'\<rparr>
      in case origin env u of
           NewRequestError \<Rightarrow>
             \<lparr>resp = http_Error ''Failed to create request'' 500, disk = fs,
              logs = [Log_CACHE_MISS path], sent = []\<rparr>
         | DoError \<Rightarrow>
             \<lparr>resp = http_Error ''Failed to fetch'' 502, disk = fs,
              logs = [Log_CACHE_MISS path, Log_ERROR ''Failed to fetch''], sent = [req]\<rparr>
         | Response code clen data complete \<Rightarrow>
             if code \<noteq> 200 then
               \<lparr>resp = http_Error ''Upstream error'' code, disk = fs,
                logs = [Log_CACHE_MISS path, Log_ERROR ''Upstream returned''], sent = [req]\<rparr>
             else
               (case os_MkdirAll (mkdir_fails env) fs (filepath_Dir cp) of
                  (Some err, fs1) \<Rightarrow>
                    \<lparr>resp = http_Error ''Failed to create cache dir'' 500, disk = fs1,
                     logs = [Log_CACHE_MISS path, Log_ERROR ''Failed to create cache dir''],
                     sent = [req]\<rparr>
                | (None, fs1) \<Rightarrow>
                    (case os_Create (write_fails env) fs1 (cp @ ''.tmp'') of
                       (Some err, fs2) \<Rightarrow>
                         \<lparr>resp = http_Error ''Failed to create cache file'' 500, disk = fs2,
                          logs = [Log_CACHE_MISS path, Log_ERROR ''Failed to create cache file''],
                          sent = [req]\<rparr>
                     | (None, fs2) \<Rightarrow>
                         (let info = (if clen > 0 then [Log_INFO ''Downloading zip''] else []);
                              hdr_len = (if clen > 0 then Some clen else None);
                              copied = (case write_fails env of
                                          WriteFailsAfter n \<Rightarrow> take n data
                                        | _ \<Rightarrow> data);
                              copy_failed = ((case write_fails env of
                                                WriteFailsAfter n \<Rightarrow> True
                                              | _ \<Rightarrow> False) \<or> \<not> complete);
                              fs3 = fs2(cp @ ''.tmp'' \<mapsto> File copied);
                              answer = ok_response ''application/zip'' hdr_len copied
                          in if copy_failed then
                               \<lparr>resp = answer,
                                disk = snd (os_Remove (remove_fails env) fs3 (cp @ ''.tmp'')),
                                logs = [Log_CACHE_MISS path] @ info @ [Log_ERROR ''Error copying zip''],
                                sent = [req]\<rparr>
                             else
                               (case os_Rename (rename_fails env) fs3 (cp @ ''.tmp'') cp of
                                  (Some err, fs4) \<Rightarrow>
                                    \<lparr>resp = answer,
                                     disk = snd (os_Remove (remove_fails env) fs4 (cp @ ''.tmp'')),
                                     logs = [Log_CACHE_MISS path] @ info @
                                            [Log_SUCCESS ''Cached zip'',
                                             Log_WARN ''Failed to rename cache file''],
                                     sent = [req]\<rparr>
                                | (None, fs4) \<Rightarrow>
                                    \<lparr>resp = answer, disk = fs4,
                                     logs = [Log_CACHE_MISS path] @ info @
                                            [Log_SUCCESS ''Cached zip''],
                                     sent = [req]\<rparr>)))))"

text \<open>
  \<^verbatim>\<open>handleZip\<close>: the cached file is opened and its size read; when both work the
  file is copied to the response (the result of \<^verbatim>\<open>io.Copy\<close> is not looked at),
  otherwise the miss path runs.
\<close>

definition handleZip :: "Proxy \<Rightarrow> environment \<Rightarrow> filesystem \<Rightarrow> Request \<Rightarrow> string \<Rightarrow> outcome" where
  "handleZip p env fs r path =
     (let cp = cachePath (cacheDir p) path in
      case os_Open (read_fails env) fs cp of
        Inr file \<Rightarrow>
          if \<not> stat_fails env then
            (let size = (case file of File data \<Rightarrow> length data | Directory \<Rightarrow> dir_size env);
                 copied = (case file of
                             Directory \<Rightarrow> []
                           | File data \<Rightarrow>
                               (case copy_read_stops env of
                                  None \<Rightarrow> data
                                | Some n \<Rightarrow> take n data))
             in \<lparr>resp = ok_response ''application/zip'' (Some (int size)) copied, disk = fs,
                 logs = [Log_CACHE_HIT path], sent = []\<rparr>)
          else handleZip_miss p env fs r path
      | Inl err \<Rightarrow> handleZip_miss p env fs r path)"

definition handleHealth :: "filesystem \<Rightarrow> outcome" where
  "handleHealth fs =
     \<lparr>resp = ok_response ''application/json'' None ''{\"status\":\"ok\"}'', disk = fs,
      logs = [], sent = []\<rparr>"

definition HandleRequest :: "Proxy \<Rightarrow> environment \<Rightarrow> filesystem \<Rightarrow> Request \<Rightarrow> outcome" where
  "HandleRequest p env fs r =
     (if Method r \<noteq> ''GET'' then
        \<lparr>resp = http_Error ''Method not allowed'' 405, disk = fs, logs = [], sent = []\<rparr>
      else
        (let path = TrimPrefix (URL_Path r) ''/'' in
         if path = ''health'' \<or> path = ''healthz'' then handleHealth fs
         else
           (let out =
                  (if HasSuffix path ''/@v/list'' then handleList p env fs r path
                   else if HasSuffix path ''.info'' then handleInfo p env fs r path
                   else if HasSuffix path ''.mod'' then handleMod p env fs r path
                   else if HasSuffix path ''.zip'' then handleZip p env fs r path
                   else \<lparr>resp = http_Error ''Not found'' 404, disk = fs, logs = [], sent = []\<rparr>)
            in out\<lparr>logs := Log_request path # logs out\<rparr>)))"

subsection \<open>Reading an outcome\<close>

text \<open>
  The caller got the bytes \<open>data\<close> with status 200, and the log has a warning
  and no error.
\<close>

definition served_with_warning :: "outcome \<Rightarrow> string \<Rightarrow> bool" where
  "served_with_warning out data =
     (status (resp out) = 200 \<and> body (resp out) = data \<and>
      list_ex (\<lambda>l. case l of Log_WARN m \<Rightarrow> True | _ \<Rightarrow> False) (logs out) \<and>
      \<not> list_ex (\<lambda>l. case l of Log_ERROR m \<Rightarrow> True | _ \<Rightarrow> False) (logs out))"

text \<open>
  The handler took the miss path: the miss is logged and the request \<open>req\<close>
  went to \<^verbatim>\<open>client.Do\<close> (nothing went out when the request could not be built).
\<close>

definition treated_as_miss :: "outcome \<Rightarrow> string \<Rightarrow> exchange \<Rightarrow> outbound \<Rightarrow> bool" where
  "treated_as_miss out path ex req =
     (list_ex (\<lambda>l. l = Log_CACHE_MISS path) (logs out) \<and>
      (if ex = NewRequestError then sent out = [] else sent out = [req]))"



subsection \<open>Example worlds\<close>

text \<open>
  A disk without faults, and a world around an upstream server \<open>srv\<close>: no
  faults, the clock at zero, a decoder that accepts the bodies that start with
  a brace.  They serve as concrete inputs.
\<close>

definition no_faults :: faults where
  "no_faults =
     \<lparr>read_fails = False, stat_fails = False, copy_read_stops = None, mkdir_fails = False,
      write_fails = WriteOK, rename_fails = False, remove_fails = False\<rparr>"

definition example_world :: "(string \<Rightarrow> exchange) \<Rightarrow> environment" where
  "example_world srv =
     \<lparr>read_fails = False, stat_fails = False, copy_read_stops = None, mkdir_fails = False,
      write_fails = WriteOK, rename_fails = False, remove_fails = False,
      origin = srv, now = 0, json_ok = (\<lambda>data. HasPrefix data ''{''), dir_size = 4096\<rparr>"

definition example_proxy :: Proxy where
  "example_proxy = NewProxy ''./cache'' ''https://proxy.golang.org/'' [] []"

definition example_request :: "string \<Rightarrow> Context \<Rightarrow> Request" where
  "example_request path c =
     \<lparr>Method = ''GET'', URL_Path = CHR ''/'' # path, RemoteAddr = ''127.0.0.1:4000'',
      req_Context = c\<rparr>"

definition background :: Context where
  "background = \<lparr>deadline = None, cancelAt = None\<rparr>"

section \<open>Properties\<close>

subsection \<open>String helpers\<close>

lemma HasPrefix_append [simp]: "HasPrefix (pre @ r) pre"
  by (simp add: HasPrefix_def)

lemma TrimPrefix_append [simp]: "TrimPrefix (pre @ r) pre = r"
  by (simp add: TrimPrefix_def)

lemma Contains_single: "Contains s [c] \<longleftrightarrow> c \<in> set s"
  by (induction s) (auto simp: HasPrefix_def)

lemma HasPrefix_iff: "HasPrefix s pre \<longleftrightarrow> (\<exists>r. s = pre @ r)"
  unfolding HasPrefix_def
  by (metis append_eq_conv_conj append_take_drop_id)

subsection \<open>Resolver construction\<close>

text \<open>
  Claim C4.  \<^verbatim>\<open>createDNSResolver\<close> never returns an error.  The empty string
  gives no resolver; a string that starts with \<^verbatim>\<open>https://\<close> gives the
  DNS-over-HTTPS resolver on that very URL; \<^verbatim>\<open>tls://\<close> and \<^verbatim>\<open>quic://\<close> give the
  DNS-over-TLS and DNS-over-QUIC resolvers on the remainder, with \<^verbatim>\<open>:853\<close>
  appended when the remainder has no colon; every other string, after an
  optional \<^verbatim>\<open>udp://\<close> is removed, gives the standard resolver, with \<^verbatim>\<open>:53\<close>
  appended when it has no colon.
\<close>

theorem createDNSResolver_cases:
  "snd (createDNSResolver s) = None \<and>
   (s = [] \<longrightarrow> fst (createDNSResolver s) = None) \<and>
   (\<forall>r. s = ''https://'' @ r \<longrightarrow>
      fst (createDNSResolver s) = Some (DoHResolver \<lparr>Timeout = 10 * Second\<rparr> s)) \<and>
   (\<forall>r. s = ''tls://'' @ r \<longrightarrow>
      fst (createDNSResolver s) =
        Some (DoTResolver (if CHR '':'' \<in> set r then r else r @ '':853'') \<lparr>Net = ''tcp-tls''\<rparr>)) \<and>
   (\<forall>r. s = ''quic://'' @ r \<longrightarrow>
      fst (createDNSResolver s) =
        Some (DoQResolver (if CHR '':'' \<in> set r then r else r @ '':853'') \<lparr>Net = ''tcp-tls''\<rparr>)) \<and>
   (\<forall>r. s = ''udp://'' @ r \<longrightarrow>
      fst (createDNSResolver s) =
        Some (StandardDNSResolver (if CHR '':'' \<in> set r then r else r @ '':53''))) \<and>
   (s \<noteq> [] \<and> (\<forall>r. s \<noteq> ''https://'' @ r \<and> s \<noteq> ''tls://'' @ r \<and> s \<noteq> ''quic://'' @ r \<and>
                     s \<noteq> ''udp://'' @ r) \<longrightarrow>
      fst (createDNSResolver s) =
        Some (StandardDNSResolver (if CHR '':'' \<in> set s then s else s @ '':53'')))"
proof -
  have err: "snd (createDNSResolver s) = None"
    by (simp add: createDNSResolver_def Let_def)
  have empty: "s = [] \<longrightarrow> fst (createDNSResolver s) = None"
    by (simp add: createDNSResolver_def)
  have doh: "\<forall>r. s = ''https://'' @ r \<longrightarrow>
      fst (createDNSResolver s) = Some (DoHResolver \<lparr>Timeout = 10 * Second\<rparr> s)"
    by (simp add: createDNSResolver_def HasPrefix_def)
  have dot: "\<forall>r. s = ''tls://'' @ r \<longrightarrow>
      fst (createDNSResolver s) =
        Some (DoTResolver (if CHR '':'' \<in> set r then r else r @ '':853'') \<lparr>Net = ''tcp-tls''\<rparr>)"
    by (simp add: createDNSResolver_def HasPrefix_def TrimPrefix_def Contains_single)
  have doq: "\<forall>r. s = ''quic://'' @ r \<longrightarrow>
      fst (createDNSResolver s) =
        Some (DoQResolver (if CHR '':'' \<in> set r then r else r @ '':853'') \<lparr>Net = ''tcp-tls''\<rparr>)"
    by (simp add: createDNSResolver_def HasPrefix_def TrimPrefix_def Contains_single)
  have udp: "\<forall>r. s = ''udp://'' @ r \<longrightarrow>
      fst (createDNSResolver s) =
        Some (StandardDNSResolver (if CHR '':'' \<in> set r then r else r @ '':53''))"
    by (simp add: createDNSResolver_def HasPrefix_def TrimPrefix_def Contains_single)
  have other: "s \<noteq> [] \<and> (\<forall>r. s \<noteq> ''https://'' @ r \<and> s \<noteq> ''tls://'' @ r \<and>
                     s \<noteq> ''quic://'' @ r \<and> s \<noteq> ''udp://'' @ r) \<longrightarrow>
      fst (createDNSResolver s) =
        Some (StandardDNSResolver (if CHR '':'' \<in> set s then s else s @ '':53''))"
    by (simp add: createDNSResolver_def HasPrefix_iff TrimPrefix_def Contains_single)
  from err empty doh dot doq udp other show ?thesis by blast
qed

theorem createDNSResolver_cases_witness:
  "createDNSResolver ''8.8.8.8'' = (Some (StandardDNSResolver ''8.8.8.8:53''), None) \<and>
   createDNSResolver ''udp://8.8.8.8'' = (Some (StandardDNSResolver ''8.8.8.8:53''), None) \<and>
   createDNSResolver ''tls://1.1.1.1'' =
     (Some (DoTResolver ''1.1.1.1:853'' \<lparr>Net = ''tcp-tls''\<rparr>), None) \<and>
   createDNSResolver ''quic://1.1.1.1:8853'' =
     (Some (DoQResolver ''1.1.1.1:8853'' \<lparr>Net = ''tcp-tls''\<rparr>), None) \<and>
   createDNSResolver ''https://dns.google/resolve'' =
     (Some (DoHResolver \<lparr>Timeout = 10 * Second\<rparr> ''https://dns.google/resolve''), None) \<and>
   createDNSResolver [] = (None, None)"
  using createDNSResolver_cases [of "''8.8.8.8''"] createDNSResolver_cases [of "''udp://8.8.8.8''"]
    createDNSResolver_cases [of "''tls://1.1.1.1''"]
    createDNSResolver_cases [of "''quic://1.1.1.1:8853''"]
    createDNSResolver_cases [of "''https://dns.google/resolve''"]
    createDNSResolver_cases [of "[]"]
  by (simp add: prod_eq_iff)

subsection \<open>The DNS-over-QUIC resolver\<close>

text \<open>
  Claim C9.  For every network, context and host, the lookup of a
  DNS-over-QUIC resolver equals the lookup of the DNS-over-TLS resolver with
  the same server and client; and the resolvers built from \<^verbatim>\<open>quic://r\<close> and
  from \<^verbatim>\<open>tls://r\<close> carry the same server address (with the same default port),
  so they look every host up alike.
\<close>

theorem DoQ_lookup_is_DoT_lookup:
  "LookupIP net (DoQResolver server dc) ctx host =
     LookupIP net (DoTResolver server dc) ctx host \<and>
   (\<exists>server' client'.
      fst (createDNSResolver (''quic://'' @ r)) = Some (DoQResolver server' client') \<and>
      fst (createDNSResolver (''tls://'' @ r)) = Some (DoTResolver server' client') \<and>
      LookupIP net (DoQResolver server' client') ctx host =
        LookupIP net (DoTResolver server' client') ctx host)"
  by (simp add: DoQ_LookupIP_def createDNSResolver_def HasPrefix_def TrimPrefix_def Let_def)

subsection \<open>Precedence of the proxy settings\<close>

text \<open>
  Claim C6.  The proxy URL that \<^verbatim>\<open>NewProxy\<close> settles on is the first non-empty
  string among the explicit value, \<^verbatim>\<open>HTTP_PROXY\<close>, \<^verbatim>\<open>HTTPS_PROXY\<close> and
  \<^verbatim>\<open>SOCKS5_PROXY\<close>, in this order; this holds for the value it is given and
  also when \<^verbatim>\<open>main\<close> has already folded the environment into the flag.
\<close>

theorem proxy_precedence:
  "NewProxy_proxyURL flag Getenv =
     first_nonempty [flag, Getenv ''HTTP_PROXY'', Getenv ''HTTPS_PROXY'', Getenv ''SOCKS5_PROXY''] \<and>
   NewProxy_proxyURL (main_httpProxy flag Getenv) Getenv =
     first_nonempty [flag, Getenv ''HTTP_PROXY'', Getenv ''HTTPS_PROXY'', Getenv ''SOCKS5_PROXY'']"
  by (simp add: NewProxy_proxyURL_def main_httpProxy_def Let_def)

theorem proxy_precedence_witness:
  "NewProxy_proxyURL []
     (\<lambda>name. if name = ''HTTPS_PROXY'' then ''http://proxy:8080''
              else if name = ''SOCKS5_PROXY'' then ''socks5://socks:1080'' else []) =
     ''http://proxy:8080'' \<and>
   NewProxy_proxyURL ''http://flag:3128'' (\<lambda>name. ''http://env:8080'') = ''http://flag:3128''"
  using proxy_precedence [of "[]" "\<lambda>name. if name = ''HTTPS_PROXY'' then ''http://proxy:8080''
              else if name = ''SOCKS5_PROXY'' then ''socks5://socks:1080'' else []"]
    proxy_precedence [of "''http://flag:3128''" "\<lambda>name. ''http://env:8080''"]
  by simp

subsection \<open>Paths\<close>

lemma Split_nonempty [simp]: "Split s c \<noteq> []"
  by (induction s) (auto split: list.splits)

















subsection \<open>What the calls of package \<^verbatim>\<open>os\<close> leave alone\<close>



lemma os_Create_frame: "q \<noteq> t \<Longrightarrow> snd (os_Create w fs t) q = fs q"
  by (simp add: os_Create_def)

lemma os_WriteFile_frame: "q \<noteq> t \<Longrightarrow> snd (os_WriteFile w fs t data) q = fs q"
  by (simp add: os_WriteFile_def os_Create_def split: write_fault.splits)


lemma os_Remove_frame: "q \<noteq> t \<Longrightarrow> snd (os_Remove f fs t) q = fs q"
  by (simp add: os_Remove_def split: option.splits)


subsection \<open>Writing and reading the cache\<close>

lemma writeCache_success:
  assumes "writeCache flt fs path data = (None, fs')"
  shows "fs' path = Some (File data)"
proof -
  obtain e1 fs1 where m: "os_MkdirAll (mkdir_fails flt) fs (filepath_Dir path) = (e1, fs1)"
    by (cases "os_MkdirAll (mkdir_fails flt) fs (filepath_Dir path)")
  obtain e2 fs2 where w: "os_WriteFile (write_fails flt) fs1 (path @ ''.tmp'') data = (e2, fs2)"
    by (cases "os_WriteFile (write_fails flt) fs1 (path @ ''.tmp'') data")
  from assms m w have e1: "e1 = None" and e2: "e2 = None"
    and rn: "os_Rename (rename_fails flt) fs2 (path @ ''.tmp'') path = (None, fs')"
    by (auto simp: writeCache_def Let_def split: option.splits)
  from w e2 have t: "fs2 (path @ ''.tmp'') = Some (File data)"
    by (auto simp: os_WriteFile_def os_Create_def split: if_splits write_fault.splits)
  from rn t show ?thesis
    by (auto simp: os_Rename_def split: if_splits option.splits node.splits)
qed

lemma cachePath_example:
  "cachePath ''./cache'' ''example.com/@v/list'' = ''cache/example.com/@v/list''"
  by (simp add: cachePath_def ReplaceAll_def filepath_Join_def Clean_def Separator_def Let_def)

lemma filepath_Dir_example: "filepath_Dir ''cache/example.com/@v/list'' = ''cache/example.com/@v''"
  by (simp add: filepath_Dir_def Clean_def Separator_def Let_def)

lemma dir_chain_example:
  "dir_chain ''cache/example.com/@v'' = [''cache/example.com/@v'', ''cache/example.com'', ''cache'']"
  by (simp add: dir_chain_def Separator_def)

lemma os_MkdirAll_example:
  "os_MkdirAll False Map.empty ''cache/example.com/@v'' =
     (None, [''cache'' \<mapsto> Directory, ''cache/example.com'' \<mapsto> Directory,
             ''cache/example.com/@v'' \<mapsto> Directory])"
  by (simp add: os_MkdirAll_def dir_chain_example)

text \<open>
  Claim C1.  When \<^verbatim>\<open>writeCache\<close> of the payload \<open>P\<close> at the path of the key \<open>K\<close>
  returns no error, \<^verbatim>\<open>readCache\<close> of that path on the disk it leaves returns
  exactly \<open>P\<close> (the read itself not being made to fail by the environment).
\<close>

theorem write_then_read:
  assumes "writeCache flt fs (cachePath baseDir K) P = (None, fs')"
    and "\<not> read_fails flt'"
  shows "readCache flt' fs' (cachePath baseDir K) = Inr P"
  using writeCache_success [OF assms(1)] assms(2)
  by (simp add: readCache_def os_ReadFile_def)

theorem write_then_read_witness:
  "fst (writeCache no_faults Map.empty (cachePath ''./cache'' ''example.com/@v/list'') ''v1.0.0'') =
     None \<and>
   \<not> read_fails no_faults \<and>
   readCache no_faults
     (snd (writeCache no_faults Map.empty (cachePath ''./cache'' ''example.com/@v/list'') ''v1.0.0''))
     (cachePath ''./cache'' ''example.com/@v/list'') = Inr ''v1.0.0''"
proof -
  have ok: "fst (writeCache no_faults Map.empty (cachePath ''./cache'' ''example.com/@v/list'')
                   ''v1.0.0'') = None"
    by (simp add: cachePath_example filepath_Dir_example writeCache_def os_MkdirAll_example
        os_WriteFile_def os_Create_def os_Rename_def no_faults_def Let_def)
  then have w: "writeCache no_faults Map.empty (cachePath ''./cache'' ''example.com/@v/list'')
                  ''v1.0.0'' =
      (None, snd (writeCache no_faults Map.empty (cachePath ''./cache'' ''example.com/@v/list'')
                    ''v1.0.0''))"
    by (simp add: prod_eq_iff)
  have r: "\<not> read_fails no_faults" by (simp add: no_faults_def)
  from write_then_read [OF w r] ok r show ?thesis by simp
qed

lemma cachePath_info_example:
  "cachePath ''./cache'' ''example.com/@v/v1.0.0.info'' = ''cache/example.com/@v/v1.0.0.info''"
  by (simp add: cachePath_def ReplaceAll_def filepath_Join_def Clean_def Separator_def Let_def)

lemma filepath_Dir_info_example:
  "filepath_Dir ''cache/example.com/@v/v1.0.0.info'' = ''cache/example.com/@v''"
  by (simp add: filepath_Dir_def Clean_def Separator_def Let_def)

lemma cachePath_zip_example:
  "cachePath ''./cache'' ''example.com/@v/v1.0.0.zip'' = ''cache/example.com/@v/v1.0.0.zip''"
  by (simp add: cachePath_def ReplaceAll_def filepath_Join_def Clean_def Separator_def Let_def)

lemma filepath_Dir_zip_example:
  "filepath_Dir ''cache/example.com/@v/v1.0.0.zip'' = ''cache/example.com/@v''"
  by (simp add: filepath_Dir_def Clean_def Separator_def Let_def)

lemma example_proxy_fields:
  "cacheDir example_proxy = ''./cache''" "upstream example_proxy = ''https://proxy.golang.org''"
  "Timeout (client example_proxy) = 5 * Minute"
  by (simp_all add: example_proxy_def NewProxy_def TrimSuffix_def HasSuffix_def)

subsection \<open>A write that fails\<close>

lemma content_at_mkdir_all: "content_at (snd (mkdir_all fs chain)) q = content_at fs q"
proof (induction chain)
  case Nil
  then show ?case by simp
next
  case (Cons a parents)
  show ?case
  proof (cases "fs a")
    case None
    obtain e' fs' where m: "mkdir_all fs parents = (e', fs')"
      by (cases "mkdir_all fs parents")
    with Cons.IH have "content_at fs' q = content_at fs q" by simp
    with None m show ?thesis
      by (cases e') (auto simp: content_at_def)
  next
    case (Some nd)
    then show ?thesis by (cases nd) simp_all
  qed
qed

lemma content_at_MkdirAll: "content_at (snd (os_MkdirAll f fs d)) q = content_at fs q"
  by (simp add: os_MkdirAll_def content_at_mkdir_all)

text \<open>
  On both paths a failed write leaves the content of the final path as it
  was.  For \<^verbatim>\<open>writeCache\<close>:
\<close>

lemma writeCache_failure_final:
  assumes "fst (writeCache flt fs path data) \<noteq> None"
  shows "content_at (snd (writeCache flt fs path data)) path = content_at fs path"
proof -
  obtain e1 fs1 where m: "os_MkdirAll (mkdir_fails flt) fs (filepath_Dir path) = (e1, fs1)"
    by (cases "os_MkdirAll (mkdir_fails flt) fs (filepath_Dir path)")
  obtain e2 fs2 where w: "os_WriteFile (write_fails flt) fs1 (path @ ''.tmp'') data = (e2, fs2)"
    by (cases "os_WriteFile (write_fails flt) fs1 (path @ ''.tmp'') data")
  obtain e3 fs3 where r: "os_Rename (rename_fails flt) fs2 (path @ ''.tmp'') path = (e3, fs3)"
    by (cases "os_Rename (rename_fails flt) fs2 (path @ ''.tmp'') path")
  have c1: "content_at fs1 path = content_at fs path"
    using content_at_MkdirAll[of "mkdir_fails flt" fs "filepath_Dir path" path] m by simp
  have "fs2 path = fs1 path"
    using os_WriteFile_frame[of path "path @ ''.tmp''" "write_fails flt" fs1 data] w by simp
  then have c2: "content_at fs2 path = content_at fs1 path"
    by (simp add: content_at_def)
  have c3: "e3 \<noteq> None \<Longrightarrow> fs3 = fs2"
    using r by (auto simp: os_Rename_def split: if_splits option.splits node.splits)
  show ?thesis
    using assms m w r c1 c2 c3
    by (auto simp: writeCache_def Let_def split: option.splits)
qed

text \<open>
  For the streaming path: whatever happens, the final path holds what it held
  or the whole body of a complete response, and (when \<^verbatim>\<open>os.Remove\<close> works) no
  temporary file that the handler created is left.
\<close>

lemma content_at_Create_other: "q \<noteq> t \<Longrightarrow> content_at (snd (os_Create w fs t)) q = content_at fs q"
  by (simp add: os_Create_def content_at_def)

lemma os_Create_failed: "os_Create w fs t = (Some err, fs') \<Longrightarrow> fs' = fs"
  by (auto simp: os_Create_def split: if_splits)

lemma os_Rename_failed: "os_Rename f fs a b = (Some err, fs') \<Longrightarrow> fs' = fs"
  by (auto simp: os_Rename_def split: if_splits option.splits node.splits)

lemma os_Rename_done:
  "os_Rename f fs a b = (None, fs') \<Longrightarrow> fs a = Some (File data) \<Longrightarrow> a \<noteq> b \<Longrightarrow>
   fs' a = None \<and> fs' b = Some (File data) "
  by (auto simp: os_Rename_def split: if_splits option.splits node.splits)

lemma os_Remove_present:
  "fs t = Some nd \<Longrightarrow> snd (os_Remove False fs t) t = None"
  by (simp add: os_Remove_def)

lemma handleZip_miss_disk:
  assumes "\<not> remove_fails env"
  shows "(content_at (disk (handleZip_miss p env fs r path)) (cachePath (cacheDir p) path @ ''.tmp'') = None \<or>
          content_at (disk (handleZip_miss p env fs r path)) (cachePath (cacheDir p) path @ ''.tmp'') =
            content_at fs (cachePath (cacheDir p) path @ ''.tmp'')) \<and>
         (content_at (disk (handleZip_miss p env fs r path)) (cachePath (cacheDir p) path) =
            content_at fs (cachePath (cacheDir p) path) \<or>
          (\<exists>clen data. origin env (upstream p @ ''/'' @ path) = Response 200 clen data True \<and>
             content_at (disk (handleZip_miss p env fs r path)) (cachePath (cacheDir p) path) = Some data))"
proof -
  let ?cp = "cachePath (cacheDir p) path"
  let ?tmp = "?cp @ ''.tmp''"
  let ?u = "upstream p @ ''/'' @ path"
  have ne: "?cp \<noteq> ?tmp" by simp
  show ?thesis
  proof (cases "origin env ?u")
    case NewRequestError
    then show ?thesis by (simp add: handleZip_miss_def Let_def)
  next
    case DoError
    then show ?thesis by (simp add: handleZip_miss_def Let_def)
  next
    case (Response code clen data complete)
    show ?thesis
    proof (cases "code = 200")
      case False
      with Response show ?thesis by (simp add: handleZip_miss_def Let_def)
    next
      case True
      obtain e1 fs1 where m: "os_MkdirAll (mkdir_fails env) fs (filepath_Dir ?cp) = (e1, fs1)"
        by (cases "os_MkdirAll (mkdir_fails env) fs (filepath_Dir ?cp)")
      have c1: "content_at fs1 q = content_at fs q" for q
        using content_at_MkdirAll[of "mkdir_fails env" fs "filepath_Dir ?cp" q] m by simp
      show ?thesis
      proof (cases e1)
        case (Some err)
        with Response True m c1 show ?thesis by (simp add: handleZip_miss_def Let_def)
      next
        case None
        obtain e2 fs2 where c: "os_Create (write_fails env) fs1 ?tmp = (e2, fs2)"
          by (cases "os_Create (write_fails env) fs1 ?tmp")
        show ?thesis
        proof (cases e2)
          case (Some err)
          with c have "fs2 = fs1" by (simp add: os_Create_failed)
          with Response True m None c Some c1 show ?thesis
            by (simp add: handleZip_miss_def Let_def)
        next
          case n2: None
          define copied where "copied = (case write_fails env of WriteFailsAfter n \<Rightarrow> take n data | _ \<Rightarrow> data)"
          define failed where "failed = ((case write_fails env of WriteFailsAfter n \<Rightarrow> True | _ \<Rightarrow> False) \<or> \<not> complete)"
          define fs3 where "fs3 = fs2(?tmp \<mapsto> File copied)"
          have cfin: "content_at fs3 ?cp = content_at fs ?cp"
            using content_at_Create_other[OF ne, of "write_fails env" fs1] c c1[of ?cp] ne
            by (simp add: fs3_def content_at_def)
          have t3: "fs3 ?tmp = Some (File copied)" by (simp add: fs3_def)
          have rm: "snd (os_Remove (remove_fails env) fs3 ?tmp) ?tmp = None"
            using assms t3 by (simp add: os_Remove_present)
          have rmf: "snd (os_Remove (remove_fails env) fs3 ?tmp) ?cp = fs3 ?cp"
            using ne by (simp add: os_Remove_frame)
          show ?thesis
          proof (cases failed)
            case True
            have d: "disk (handleZip_miss p env fs r path) = snd (os_Remove (remove_fails env) fs3 ?tmp)"
              using Response \<open>code = 200\<close> m None c n2 True
              by (simp add: handleZip_miss_def Let_def fs3_def copied_def failed_def)
            show ?thesis using rm rmf cfin by (simp add: d content_at_def)
          next
            case False
            then have comp: "complete" and cop: "copied = data"
              by (auto simp: failed_def copied_def split: write_fault.splits)
            obtain e4 fs4 where rn: "os_Rename (rename_fails env) fs3 ?tmp ?cp = (e4, fs4)"
              by (cases "os_Rename (rename_fails env) fs3 ?tmp ?cp")
            show ?thesis
            proof (cases e4)
              case (Some err)
              with rn have "fs4 = fs3" by (simp add: os_Rename_failed)
              then have d: "disk (handleZip_miss p env fs r path) = snd (os_Remove (remove_fails env) fs3 ?tmp)"
                using Response \<open>code = 200\<close> m None c n2 False rn Some
                by (simp add: handleZip_miss_def Let_def fs3_def copied_def failed_def)
              show ?thesis using rm rmf cfin by (simp add: d content_at_def)
            next
              case n4: None
              have d: "disk (handleZip_miss p env fs r path) = fs4"
                using Response \<open>code = 200\<close> m None c n2 False rn n4
                by (simp add: handleZip_miss_def Let_def fs3_def copied_def failed_def)
              have "fs4 ?tmp = None \<and> fs4 ?cp = Some (File data)"
                using os_Rename_done[of "rename_fails env" fs3 ?tmp ?cp fs4 data] rn n4 t3 cop by simp
              then show ?thesis
                using Response \<open>code = 200\<close> comp by (simp add: d content_at_def)
            qed
          qed
        qed
      qed
    qed
  qed
qed

text \<open>
  Claim C2 holds of the streaming path and, for the final path, of
  \<^verbatim>\<open>writeCache\<close>; but \<^verbatim>\<open>writeCache\<close> has no call of \<^verbatim>\<open>os.Remove\<close>, and a write that
  fails leaves its temporary file.  On an empty disk, a write of \<^verbatim>\<open>v1.0.0\<close> that
  the disk stops after three bytes returns an error and leaves \<^verbatim>\<open>v1.\<close> in the
  temporary file; a write whose rename fails leaves the whole payload there.
\<close>

theorem writeCache_leaves_tmp_file:
  "fst (writeCache (no_faults\<lparr>write_fails := WriteFailsAfter 3\<rparr>) Map.empty
          ''cache/example.com/@v/list'' ''v1.0.0'') = Some EIO \<and>
   content_at (snd (writeCache (no_faults\<lparr>write_fails := WriteFailsAfter 3\<rparr>) Map.empty
          ''cache/example.com/@v/list'' ''v1.0.0'')) ''cache/example.com/@v/list.tmp'' =
     Some ''v1.'' \<and>
   fst (writeCache (no_faults\<lparr>rename_fails := True\<rparr>) Map.empty
          ''cache/example.com/@v/list'' ''v1.0.0'') = Some EIO \<and>
   content_at (snd (writeCache (no_faults\<lparr>rename_fails := True\<rparr>) Map.empty
          ''cache/example.com/@v/list'' ''v1.0.0'')) ''cache/example.com/@v/list.tmp'' =
     Some ''v1.0.0''"
  by (simp add: filepath_Dir_example writeCache_def os_MkdirAll_example
        os_WriteFile_def os_Create_def os_Rename_def no_faults_def Let_def content_at_def)

subsection \<open>The path of a cache key\<close>






subsection \<open>A body that is not JSON\<close>

text \<open>
  Claim C7.  When the cache read of \<^verbatim>\<open>handleInfo\<close> fails (a miss), the upstream
  answers 200 with a body that is read to its end, and \<^verbatim>\<open>json.Unmarshal\<close>
  rejects the body, the response has status 502 and the disk is as it was.
\<close>

theorem handleInfo_invalid_json:
  assumes "readCache env fs (cachePath (cacheDir p) path) = Inl e"
    and "origin env (upstream p @ ''/'' @ path) = Response 200 clen data True"
    and "\<not> json_ok env data"
  shows "status (resp (handleInfo p env fs r path)) = 502 \<and>
         disk (handleInfo p env fs r path) = fs"
  using assms by (simp add: handleInfo_def handleBuffered_def Let_def http_Error_def)

theorem handleInfo_invalid_json_witness:
  "readCache (example_world (\<lambda>u. Response 200 8 ''not-json'' True)) Map.empty
     (cachePath (cacheDir example_proxy) ''example.com/@v/v1.0.0.info'') = Inl ENOENT \<and>
   origin (example_world (\<lambda>u. Response 200 8 ''not-json'' True))
     (upstream example_proxy @ ''/'' @ ''example.com/@v/v1.0.0.info'') =
     Response 200 8 ''not-json'' True \<and>
   \<not> json_ok (example_world (\<lambda>u. Response 200 8 ''not-json'' True)) ''not-json'' \<and>
   status (resp (handleInfo example_proxy (example_world (\<lambda>u. Response 200 8 ''not-json'' True))
     Map.empty (example_request ''example.com/@v/v1.0.0.info'' background)
     ''example.com/@v/v1.0.0.info'')) = 502 \<and>
   disk (handleInfo example_proxy (example_world (\<lambda>u. Response 200 8 ''not-json'' True))
     Map.empty (example_request ''example.com/@v/v1.0.0.info'' background)
     ''example.com/@v/v1.0.0.info'') = Map.empty"
proof -
  let ?W = "example_world (\<lambda>u. Response 200 8 ''not-json'' True)"
  have h1: "readCache ?W Map.empty
     (cachePath (cacheDir example_proxy) ''example.com/@v/v1.0.0.info'') = Inl ENOENT"
    by (simp add: readCache_def os_ReadFile_def example_world_def)
  have h2: "origin ?W (upstream example_proxy @ ''/'' @ ''example.com/@v/v1.0.0.info'') =
     Response 200 8 ''not-json'' True"
    by (simp add: example_world_def)
  have h3: "\<not> json_ok ?W ''not-json''"
    by (simp add: example_world_def HasPrefix_def)
  from handleInfo_invalid_json [OF h1 h2 h3] h1 h2 h3 show ?thesis by blast
qed

subsection \<open>A persist that fails after a good fetch\<close>

lemma swallowed_buffered:
  assumes "origin env (upstream p @ ''/'' @ path) = Response 200 clen data True"
    and "readCache env fs (cachePath (cacheDir p) path) = Inl e"
    and "fst (writeCache env fs (cachePath (cacheDir p) path) data) = Some werr"
    and "validate \<Longrightarrow> json_ok env data"
  shows "served_with_warning (handleBuffered ctype validate p env fs r path) data"
proof -
  obtain fs' where w: "writeCache env fs (cachePath (cacheDir p) path) data = (Some werr, fs')"
    using assms(3) by (cases "writeCache env fs (cachePath (cacheDir p) path) data") simp
  show ?thesis
    using assms(1,2,4) w
    by (auto simp: handleBuffered_def Let_def served_with_warning_def ok_response_def)
qed

lemma swallowed_zip:
  assumes "origin env (upstream p @ ''/'' @ path) = Response 200 clen data True"
    and "os_Open (read_fails env) fs (cachePath (cacheDir p) path) = Inl e \<or> stat_fails env"
    and "os_MkdirAll (mkdir_fails env) fs (filepath_Dir (cachePath (cacheDir p) path)) = (None, fs1)"
    and "os_Create (write_fails env) fs1 (cachePath (cacheDir p) path @ ''.tmp'') = (None, fs2)"
    and "write_fails env = WriteOK"
    and "fst (os_Rename (rename_fails env) (fs2(cachePath (cacheDir p) path @ ''.tmp'' \<mapsto> File data))
               (cachePath (cacheDir p) path @ ''.tmp'') (cachePath (cacheDir p) path)) = Some rerr"
  shows "served_with_warning (handleZip p env fs r path) data"
proof -
  let ?cp = "cachePath (cacheDir p) path"
  obtain fs4 where rn: "os_Rename (rename_fails env) (fs2(?cp @ ''.tmp'' \<mapsto> File data))
               (?cp @ ''.tmp'') ?cp = (Some rerr, fs4)"
    using assms(6)
    by (cases "os_Rename (rename_fails env) (fs2(?cp @ ''.tmp'' \<mapsto> File data)) (?cp @ ''.tmp'') ?cp")
      simp
  have miss: "served_with_warning (handleZip_miss p env fs r path) data"
    using assms(1,3,4,5) rn
    by (simp add: handleZip_miss_def Let_def served_with_warning_def ok_response_def)
  have "handleZip p env fs r path = handleZip_miss p env fs r path"
    using assms(2) by (auto simp: handleZip_def Let_def split: sum.splits)
  with miss show ?thesis by simp
qed

text \<open>
  Claim C8.  Let the upstream answer 200 with a body that is read to its end.
  In \<^verbatim>\<open>handleList\<close>, \<^verbatim>\<open>handleMod\<close> and (the body being accepted as JSON)
  \<^verbatim>\<open>handleInfo\<close>, when the cache read misses and \<^verbatim>\<open>writeCache\<close> then fails, the
  caller gets the body with status 200, with a warning and no error in the
  log.  In \<^verbatim>\<open>handleZip\<close> the same holds when the body has been streamed whole
  to the temporary file and the rename that would persist it fails.
\<close>

theorem persist_failure_swallowed:
  assumes "origin env (upstream p @ ''/'' @ path) = Response 200 clen data True"
  shows "(readCache env fs (cachePath (cacheDir p) path) = Inl e \<and>
          fst (writeCache env fs (cachePath (cacheDir p) path) data) = Some werr \<longrightarrow>
            served_with_warning (handleList p env fs r path) data \<and>
            served_with_warning (handleMod p env fs r path) data \<and>
            (json_ok env data \<longrightarrow> served_with_warning (handleInfo p env fs r path) data)) \<and>
         ((os_Open (read_fails env) fs (cachePath (cacheDir p) path) = Inl e' \<or> stat_fails env) \<and>
          os_MkdirAll (mkdir_fails env) fs (filepath_Dir (cachePath (cacheDir p) path)) = (None, fs1) \<and>
          os_Create (write_fails env) fs1 (cachePath (cacheDir p) path @ ''.tmp'') = (None, fs2) \<and>
          write_fails env = WriteOK \<and>
          fst (os_Rename (rename_fails env)
                 (fs2(cachePath (cacheDir p) path @ ''.tmp'' \<mapsto> File data))
                 (cachePath (cacheDir p) path @ ''.tmp'') (cachePath (cacheDir p) path)) = Some rerr \<longrightarrow>
            served_with_warning (handleZip p env fs r path) data)"
  using swallowed_buffered [OF assms, of fs e werr _ _ r] swallowed_zip [OF assms, of fs e' fs1 fs2 rerr r]
  by (auto simp: handleList_def handleMod_def handleInfo_def)

theorem persist_failure_swallowed_witness:
  "origin ((example_world (\<lambda>u. Response 200 2 ''{}'' True))\<lparr>rename_fails := True\<rparr>)
     (upstream example_proxy @ ''/'' @ ''example.com/@v/v1.0.0.info'') = Response 200 2 ''{}'' True \<and>
   readCache ((example_world (\<lambda>u. Response 200 2 ''{}'' True))\<lparr>rename_fails := True\<rparr>) Map.empty
     (cachePath (cacheDir example_proxy) ''example.com/@v/v1.0.0.info'') = Inl ENOENT \<and>
   fst (writeCache ((example_world (\<lambda>u. Response 200 2 ''{}'' True))\<lparr>rename_fails := True\<rparr>)
     Map.empty (cachePath (cacheDir example_proxy) ''example.com/@v/v1.0.0.info'') ''{}'') = Some EIO \<and>
   json_ok ((example_world (\<lambda>u. Response 200 2 ''{}'' True))\<lparr>rename_fails := True\<rparr>) ''{}'' \<and>
   served_with_warning
     (handleList example_proxy ((example_world (\<lambda>u. Response 200 2 ''{}'' True))\<lparr>rename_fails := True\<rparr>)
        Map.empty (example_request ''example.com/@v/v1.0.0.info'' background)
        ''example.com/@v/v1.0.0.info'') ''{}'' \<and>
   served_with_warning
     (handleInfo example_proxy ((example_world (\<lambda>u. Response 200 2 ''{}'' True))\<lparr>rename_fails := True\<rparr>)
        Map.empty (example_request ''example.com/@v/v1.0.0.info'' background)
        ''example.com/@v/v1.0.0.info'') ''{}'' \<and>
   served_with_warning
     (handleMod example_proxy ((example_world (\<lambda>u. Response 200 2 ''{}'' True))\<lparr>rename_fails := True\<rparr>)
        Map.empty (example_request ''example.com/@v/v1.0.0.info'' background)
        ''example.com/@v/v1.0.0.info'') ''{}'' \<and>
   os_Open (read_fails ((example_world (\<lambda>u. Response 200 2 ''{}'' True))\<lparr>rename_fails := True\<rparr>))
     Map.empty (cachePath (cacheDir example_proxy) ''example.com/@v/v1.0.0.zip'') = Inl ENOENT \<and>
   served_with_warning
     (handleZip example_proxy ((example_world (\<lambda>u. Response 200 2 ''{}'' True))\<lparr>rename_fails := True\<rparr>)
        Map.empty (example_request ''example.com/@v/v1.0.0.zip'' background)
        ''example.com/@v/v1.0.0.zip'') ''{}''"
proof -
  let ?W = "(example_world (\<lambda>u. Response 200 2 ''{}'' True))\<lparr>rename_fails := True\<rparr>"
  let ?i = "''example.com/@v/v1.0.0.info''"
  let ?z = "''example.com/@v/v1.0.0.zip''"
  have o1: "origin ?W (upstream example_proxy @ ''/'' @ ?i) = Response 200 2 ''{}'' True"
    by (simp add: example_world_def)
  have o2: "origin ?W (upstream example_proxy @ ''/'' @ ?z) = Response 200 2 ''{}'' True"
    by (simp add: example_world_def)
  have rd: "readCache ?W Map.empty (cachePath (cacheDir example_proxy) ?i) = Inl ENOENT"
    by (simp add: readCache_def os_ReadFile_def example_world_def)
  have wr: "fst (writeCache ?W Map.empty (cachePath (cacheDir example_proxy) ?i) ''{}'') = Some EIO"
    by (simp add: example_proxy_fields cachePath_info_example filepath_Dir_info_example
        writeCache_def os_MkdirAll_example os_WriteFile_def os_Create_def os_Rename_def
        example_world_def Let_def)
  have js: "json_ok ?W ''{}''"
    by (simp add: example_world_def HasPrefix_def)
  have op: "os_Open (read_fails ?W) Map.empty (cachePath (cacheDir example_proxy) ?z) = Inl ENOENT"
    by (simp add: os_Open_def example_world_def)
  have mk: "os_MkdirAll (mkdir_fails ?W) Map.empty
              (filepath_Dir (cachePath (cacheDir example_proxy) ?z)) =
            (None, [''cache'' \<mapsto> Directory, ''cache/example.com'' \<mapsto> Directory,
                    ''cache/example.com/@v'' \<mapsto> Directory])"
    by (simp add: example_proxy_fields cachePath_zip_example filepath_Dir_zip_example
        os_MkdirAll_example example_world_def)
  have cr: "os_Create (write_fails ?W)
              [''cache'' \<mapsto> Directory, ''cache/example.com'' \<mapsto> Directory,
               ''cache/example.com/@v'' \<mapsto> Directory]
              (cachePath (cacheDir example_proxy) ?z @ ''.tmp'') =
            (None, [''cache'' \<mapsto> Directory, ''cache/example.com'' \<mapsto> Directory,
                    ''cache/example.com/@v'' \<mapsto> Directory,
                    ''cache/example.com/@v/v1.0.0.zip.tmp'' \<mapsto> File []])"
    by (simp add: example_proxy_fields cachePath_zip_example os_Create_def example_world_def)
  have wo: "write_fails ?W = WriteOK"
    by (simp add: example_world_def)
  have rn: "fst (os_Rename (rename_fails ?W)
                 ([''cache'' \<mapsto> Directory, ''cache/example.com'' \<mapsto> Directory,
                   ''cache/example.com/@v'' \<mapsto> Directory,
                   ''cache/example.com/@v/v1.0.0.zip.tmp'' \<mapsto> File []]
                    (cachePath (cacheDir example_proxy) ?z @ ''.tmp'' \<mapsto> File ''{}''))
                 (cachePath (cacheDir example_proxy) ?z @ ''.tmp'')
                 (cachePath (cacheDir example_proxy) ?z)) = Some EIO"
    by (simp add: os_Rename_def example_world_def)
  from persist_failure_swallowed [where env = "?W" and p = example_proxy and path = "?i"
        and fs = Map.empty and e = ENOENT and werr = EIO
        and r = "example_request ?i background", OF o1, THEN conjunct1] rd wr js
  have a: "served_with_warning (handleList example_proxy ?W Map.empty
             (example_request ?i background) ?i) ''{}''"
    and b: "served_with_warning (handleInfo example_proxy ?W Map.empty
             (example_request ?i background) ?i) ''{}''"
    and b': "served_with_warning (handleMod example_proxy ?W Map.empty
             (example_request ?i background) ?i) ''{}''"
    by simp_all
  from persist_failure_swallowed [where env = "?W" and p = example_proxy and path = "?z"
        and fs = Map.empty and e' = ENOENT and rerr = EIO
        and r = "example_request ?z background", OF o2, THEN conjunct2] op mk cr wo rn
  have c: "served_with_warning (handleZip example_proxy ?W Map.empty
             (example_request ?z background) ?z) ''{}''"
    by blast
  from o1 rd wr js a b b' op c show ?thesis by blast
qed

subsection \<open>A cache read that fails\<close>


lemma handleZip_read_failure:
  assumes "os_Open (read_fails env) fs (cachePath (cacheDir p) path) = Inl e \<or> stat_fails env"
  shows "handleZip p env fs r path = handleZip_miss p env fs r path"
    and "treated_as_miss (handleZip p env fs r path) path
           (origin env (upstream p @ ''/'' @ path))
           \<lparr>url = upstream p @ ''/'' @ path,
             out_ctx = WithTimeout (req_Context r) (now env) (10 * Minute)\<rparr>"
proof -
  show eq: "handleZip p env fs r path = handleZip_miss p env fs r path"
    using assms by (auto simp: handleZip_def Let_def split: sum.splits)
  show "treated_as_miss (handleZip p env fs r path) path
           (origin env (upstream p @ ''/'' @ path))
           \<lparr>url = upstream p @ ''/'' @ path,
             out_ctx = WithTimeout (req_Context r) (now env) (10 * Minute)\<rparr>"
    unfolding eq
    by (simp add: handleZip_miss_def treated_as_miss_def Let_def
        split: exchange.splits prod.splits option.splits)
qed






subsection \<open>The context of an archive fetch\<close>

lemma doneAt_WithTimeout:
  "doneAt (WithTimeout parent t d) = min_opt (doneAt parent) (Some (t + d))"
  unfolding doneAt_def WithTimeout_def
  by (cases "deadline parent"; cases "cancelAt parent") (auto simp: min_opt_def)

text \<open>
  Claim C5, as stated, fails: the context of the upstream request is a child
  of the inbound request's context.  When the inbound client hangs up one
  second after the handler starts, the context of the upstream request is done
  at that second, long before the ten minutes; and the HTTP client that
  carries the request has a timeout of five minutes of its own.
\<close>

theorem zip_fetch_follows_inbound_context:
  "doneAt (out_ctx (hd (sent (handleZip example_proxy
       (example_world (\<lambda>u. Response 200 10 ''PK-archive'' True)) Map.empty
       (example_request ''example.com/@v/v1.0.0.zip'' \<lparr>deadline = None, cancelAt = Some Second\<rparr>)
       ''example.com/@v/v1.0.0.zip'')))) = Some Second \<and>
   Second < now (example_world (\<lambda>u. Response 200 10 ''PK-archive'' True)) + 10 * Minute \<and>
   Timeout (client example_proxy) = 5 * Minute \<and> 5 * Minute < 10 * Minute"
proof -
  let ?W = "example_world (\<lambda>u. Response 200 10 ''PK-archive'' True)"
  let ?z = "''example.com/@v/v1.0.0.zip''"
  let ?r = "example_request ?z \<lparr>deadline = None, cancelAt = Some Second\<rparr>"
  have "os_Open (read_fails ?W) Map.empty (cachePath (cacheDir example_proxy) ?z) = Inl ENOENT"
    by (simp add: os_Open_def example_world_def)
  then have miss: "os_Open (read_fails ?W) Map.empty (cachePath (cacheDir example_proxy) ?z) =
      Inl ENOENT \<or> stat_fails ?W" ..
  have o: "origin ?W (upstream example_proxy @ ''/'' @ ?z) \<noteq> NewRequestError"
    by (simp add: example_world_def)
  have s: "sent (handleZip example_proxy ?W Map.empty ?r ?z) =
      [\<lparr>url = upstream example_proxy @ ''/'' @ ?z,
        out_ctx = WithTimeout (req_Context ?r) (now ?W) (10 * Minute)\<rparr>]"
    using handleZip_read_failure(2) [OF miss, of ?r] o by (simp add: treated_as_miss_def)
  have d: "doneAt (WithTimeout (req_Context ?r) (now ?W) (10 * Minute)) = Some Second"
    by (simp add: doneAt_def WithTimeout_def example_request_def example_world_def min_opt_def
        Minute_def Second_def)
  have n: "Second < now ?W + 10 * Minute"
    by (simp add: example_world_def Minute_def Second_def)
  have m: "5 * Minute < 10 * Minute" by (simp add: Minute_def Second_def)
  from s d n m example_proxy_fields(3) show ?thesis by simp
qed

text \<open>
  Claim C5, amended.  For an archive request that misses the cache (the
  cached file cannot be opened, or its size cannot be read) and whose upstream
  request can be built, the one request sent upstream carries the inbound
  request's context with a timeout of ten minutes added at the time the
  handler runs: it is done at the earlier of the end of the inbound context
  and ten minutes from then.
\<close>

theorem zip_fetch_context:
  assumes "os_Open (read_fails env) fs (cachePath (cacheDir p) path) = Inl e \<or> stat_fails env"
    and "origin env (upstream p @ ''/'' @ path) \<noteq> NewRequestError"
  shows "sent (handleZip p env fs r path) =
           [\<lparr>url = upstream p @ ''/'' @ path,
             out_ctx = WithTimeout (req_Context r) (now env) (10 * Minute)\<rparr>] \<and>
         doneAt (WithTimeout (req_Context r) (now env) (10 * Minute)) =
           min_opt (doneAt (req_Context r)) (Some (now env + 10 * Minute))"
  using handleZip_read_failure(2) [OF assms(1), of r] assms(2)
  by (simp add: treated_as_miss_def doneAt_WithTimeout)

theorem zip_fetch_context_witness:
  "os_Open (read_fails (example_world (\<lambda>u. Response 200 10 ''PK-archive'' True))) Map.empty
     (cachePath (cacheDir example_proxy) ''example.com/@v/v1.0.0.zip'') = Inl ENOENT \<and>
   origin (example_world (\<lambda>u. Response 200 10 ''PK-archive'' True))
     (upstream example_proxy @ ''/'' @ ''example.com/@v/v1.0.0.zip'') \<noteq> NewRequestError \<and>
   sent (handleZip example_proxy (example_world (\<lambda>u. Response 200 10 ''PK-archive'' True))
           Map.empty (example_request ''example.com/@v/v1.0.0.zip'' background)
           ''example.com/@v/v1.0.0.zip'') =
     [\<lparr>url = ''https://proxy.golang.org/example.com/@v/v1.0.0.zip'',
       out_ctx = \<lparr>deadline = Some 600000000000, cancelAt = None\<rparr>\<rparr>]"
proof -
  let ?W = "example_world (\<lambda>u. Response 200 10 ''PK-archive'' True)"
  let ?z = "''example.com/@v/v1.0.0.zip''"
  have op: "os_Open (read_fails ?W) Map.empty (cachePath (cacheDir example_proxy) ?z) = Inl ENOENT"
    by (simp add: os_Open_def example_world_def)
  then have miss: "os_Open (read_fails ?W) Map.empty (cachePath (cacheDir example_proxy) ?z) =
      Inl ENOENT \<or> stat_fails ?W" ..
  have o: "origin ?W (upstream example_proxy @ ''/'' @ ?z) \<noteq> NewRequestError"
    by (simp add: example_world_def)
  have c: "WithTimeout (req_Context (example_request ?z background)) (now ?W) (10 * Minute) =
      \<lparr>deadline = Some 600000000000, cancelAt = None\<rparr>"
    by (simp add: WithTimeout_def example_request_def background_def example_world_def
        min_opt_def Minute_def Second_def)
  have u: "upstream example_proxy @ ''/'' @ ?z = ''https://proxy.golang.org/example.com/@v/v1.0.0.zip''"
    by (simp add: example_proxy_fields)
  from zip_fetch_context [OF miss o, of "example_request ?z background"] op o c u
  show ?thesis by simp
qed

end
